theory Spec2Isabelle
  imports Complex_Main
begin

section \<open>Numeric values\<close>

text \<open>
  The scripts compute on float64 cells of pandas tables. A cell is modelled by the real
  number it denotes, or by one of the three special values of IEEE arithmetic: the two
  infinities and the undefined value NaN, which pandas also uses for a missing cell.
  Rounding and the sign of zero are not modelled: finite arithmetic is exact and a zero
  divisor counts as positive zero. Overflow of a finite result to an infinity is modelled
  where the scripts add up and scale raw counts (\<open>fround\<close> below). The other float
  operations are exact: the ratios add a pseudocount to non-negative cells before they
  divide, which keeps the quotient inside the range, and the means and scores work on
  logarithms and on percentages. A cell of an int64 column is an integer, and int64
  arithmetic wraps around.
\<close>

datatype fval = Fin real | PInf | NInf | NaN

text \<open>\<^verbatim>\<open>pd.isna\<close>: only the undefined value is missing, an infinity is not.\<close>

fun isna :: "fval \<Rightarrow> bool" where
  "isna NaN = True"
| "isna _ = False"

fun fneg :: "fval \<Rightarrow> fval" where
  "fneg (Fin x) = Fin (- x)"
| "fneg PInf = NInf"
| "fneg NInf = PInf"
| "fneg NaN = NaN"

fun fadd :: "fval \<Rightarrow> fval \<Rightarrow> fval" where
  "fadd NaN _ = NaN"
| "fadd _ NaN = NaN"
| "fadd (Fin x) (Fin y) = Fin (x + y)"
| "fadd PInf NInf = NaN"
| "fadd NInf PInf = NaN"
| "fadd PInf _ = PInf"
| "fadd _ PInf = PInf"
| "fadd NInf _ = NInf"
| "fadd _ NInf = NInf"

definition fsub :: "fval \<Rightarrow> fval \<Rightarrow> fval" where
  "fsub a b = fadd a (fneg b)"

text \<open>The product of an infinity with a finite factor takes the sign of the factor.\<close>

fun inf_times :: "fval \<Rightarrow> real \<Rightarrow> fval" where
  "inf_times i y = (if 0 < y then i else if y < 0 then fneg i else NaN)"

fun fmul :: "fval \<Rightarrow> fval \<Rightarrow> fval" where
  "fmul NaN _ = NaN"
| "fmul _ NaN = NaN"
| "fmul (Fin x) (Fin y) = Fin (x * y)"
| "fmul (Fin x) PInf = inf_times PInf x"
| "fmul (Fin x) NInf = inf_times NInf x"
| "fmul PInf (Fin y) = inf_times PInf y"
| "fmul NInf (Fin y) = inf_times NInf y"
| "fmul PInf PInf = PInf"
| "fmul NInf NInf = PInf"
| "fmul PInf NInf = NInf"
| "fmul NInf PInf = NInf"

text \<open>
  numpy division does not raise: a non-zero value over zero is an infinity and
  \<open>0 / 0\<close> is NaN.
\<close>

fun fdiv :: "fval \<Rightarrow> fval \<Rightarrow> fval" where
  "fdiv NaN _ = NaN"
| "fdiv _ NaN = NaN"
| "fdiv (Fin x) (Fin y) =
     (if y \<noteq> 0 then Fin (x / y)
      else if 0 < x then PInf else if x < 0 then NInf else NaN)"
| "fdiv (Fin x) PInf = Fin 0"
| "fdiv (Fin x) NInf = Fin 0"
| "fdiv PInf (Fin y) = (if 0 \<le> y then PInf else NInf)"
| "fdiv NInf (Fin y) = (if 0 \<le> y then NInf else PInf)"
| "fdiv PInf PInf = NaN"
| "fdiv PInf NInf = NaN"
| "fdiv NInf PInf = NaN"
| "fdiv NInf NInf = NaN"

text \<open>\<^verbatim>\<open>np.log2\<close> and \<^verbatim>\<open>np.sqrt\<close> do not raise either.\<close>

fun flog2 :: "fval \<Rightarrow> fval" where
  "flog2 (Fin x) = (if 0 < x then Fin (log 2 x) else if x = 0 then NInf else NaN)"
| "flog2 PInf = PInf"
| "flog2 NInf = NaN"
| "flog2 NaN = NaN"

fun fsqrt :: "fval \<Rightarrow> fval" where
  "fsqrt (Fin x) = (if 0 \<le> x then Fin (sqrt x) else NaN)"
| "fsqrt PInf = PInf"
| "fsqrt NInf = NaN"
| "fsqrt NaN = NaN"

text \<open>Comparisons: every comparison with NaN is false.\<close>

fun flt :: "fval \<Rightarrow> fval \<Rightarrow> bool" where
  "flt NaN _ = False"
| "flt _ NaN = False"
| "flt (Fin x) (Fin y) = (x < y)"
| "flt _ NInf = False"
| "flt PInf _ = False"
| "flt NInf _ = True"
| "flt _ PInf = True"

definition fgt :: "fval \<Rightarrow> fval \<Rightarrow> bool" where
  "fgt a b = flt b a"

fun fle :: "fval \<Rightarrow> fval \<Rightarrow> bool" where
  "fle NaN _ = False"
| "fle _ NaN = False"
| "fle (Fin x) (Fin y) = (x \<le> y)"
| "fle NInf _ = True"
| "fle _ PInf = True"
| "fle _ NInf = False"
| "fle PInf _ = False"

text \<open>
  The range of float64: a result of magnitude \<open>2\<^sup>1\<^sup>0\<^sup>2\<^sup>4 - 2\<^sup>9\<^sup>7\<^sup>0\<close> or more becomes
  an infinity.
\<close>

definition float_ovf :: real where
  "float_ovf = 2 ^ 1024 - 2 ^ 970"

fun fround :: "fval \<Rightarrow> fval" where
  "fround (Fin x) =
     (if float_ovf \<le> x then PInf else if x \<le> - float_ovf then NInf else Fin x)"
| "fround v = v"

text \<open>The value an int64 operation keeps of the exact result.\<close>

definition wrap64 :: "int \<Rightarrow> int" where
  "wrap64 i = (i + 2 ^ 63) mod 2 ^ 64 - 2 ^ 63"

text \<open>
  \<^verbatim>\<open>read_csv\<close> gives a column of integers that fit it the type int64, and a column
  with decimal or missing values the type float64. These are the two column types of the
  model; a cell carries the type of its column.
\<close>

datatype cell = I64 int | F64 fval

datatype series = Int64 "int list" | Float64 "fval list"

text \<open>The conversion to float64 that true division applies to both operands.\<close>

fun to_float :: "cell \<Rightarrow> fval" where
  "to_float (I64 i) = Fin (real_of_int i)"
| "to_float (F64 x) = x"

fun cells :: "series \<Rightarrow> fval list" where
  "cells (Int64 ns) = map (\<lambda>n. Fin (real_of_int n)) ns"
| "cells (Float64 xs) = xs"

text \<open>A column plus a Python integer: the column keeps its type.\<close>

fun add_int :: "cell \<Rightarrow> int \<Rightarrow> cell" where
  "add_int (I64 i) p = I64 (wrap64 (i + p))"
| "add_int (F64 x) p = F64 (fadd x (Fin (real_of_int p)))"

definition true_divide :: "cell \<Rightarrow> cell \<Rightarrow> fval" where
  "true_divide a b = fdiv (to_float a) (to_float b)"

section \<open>Classification of genome bins (combine\_abundance\_coverage.py)\<close>

text \<open>
  \<^verbatim>\<open>classify(row)\<close> inside \<^verbatim>\<open>classify_mags\<close>, applied to the two means of a row.
  The branches are in the order of the source.
\<close>

definition classify :: "fval \<Rightarrow> fval \<Rightarrow> string" where
  "classify ra cov =
     (if isna ra \<or> isna cov then ''Incomplete_Data''
      else if fgt ra (Fin 5) \<and> fgt cov (Fin 80) then ''High_Abundance_High_Coverage''
      else if fgt ra (Fin 5) \<and> fle cov (Fin 80) then ''High_Abundance_Low_Coverage''
      else if fle ra (Fin 5) \<and> fgt cov (Fin 80) then ''Low_Abundance_High_Coverage''
      else ''Low_Abundance_Low_Coverage'')"

text \<open>
  The same body with the two literals \<open>5\<close> and \<open>80\<close> of the source as parameters,
  to speak about any pair of thresholds.
\<close>

definition classify_at :: "real \<Rightarrow> real \<Rightarrow> fval \<Rightarrow> fval \<Rightarrow> string" where
  "classify_at t_ra t_cov ra cov =
     (if isna ra \<or> isna cov then ''Incomplete_Data''
      else if fgt ra (Fin t_ra) \<and> fgt cov (Fin t_cov) then ''High_Abundance_High_Coverage''
      else if fgt ra (Fin t_ra) \<and> fle cov (Fin t_cov) then ''High_Abundance_Low_Coverage''
      else if fle ra (Fin t_ra) \<and> fgt cov (Fin t_cov) then ''Low_Abundance_High_Coverage''
      else ''Low_Abundance_Low_Coverage'')"

definition labels :: "string set" where
  "labels = {''Incomplete_Data'', ''High_Abundance_High_Coverage'',
     ''High_Abundance_Low_Coverage'', ''Low_Abundance_High_Coverage'',
     ''Low_Abundance_Low_Coverage''}"

section \<open>Reductions of pandas\<close>

text \<open>
  \<^verbatim>\<open>mean\<close> and \<^verbatim>\<open>std\<close> of one row, with the defaults the scripts leave in place
  (\<^verbatim>\<open>skipna=True\<close>, \<^verbatim>\<open>ddof=1\<close>), computed the way pandas computes them, in
  float64: the NaN cells are masked to zero in the sums and left out of the count.
\<close>

fun fsum :: "fval list \<Rightarrow> fval" where
  "fsum [] = Fin 0"
| "fsum (x # xs) = fadd x (fsum xs)"

definition count_notna :: "fval list \<Rightarrow> nat" where
  "count_notna xs = length (filter (\<lambda>x. \<not> isna x) xs)"

definition nansum :: "fval list \<Rightarrow> fval" where
  "nansum xs = fsum (map (\<lambda>x. if isna x then Fin 0 else x) xs)"

definition nanmean :: "fval list \<Rightarrow> fval" where
  "nanmean xs =
     (let count = count_notna xs
      in if count = 0 then NaN else fdiv (nansum xs) (Fin (real count)))"

definition nanvar :: "fval list \<Rightarrow> fval" where
  "nanvar xs =
     (let count = count_notna xs
      in if count \<le> 1 then NaN
         else
           (let avg = fdiv (nansum xs) (Fin (real count));
                sqr = map (\<lambda>x. if isna x then Fin 0
                                else fmul (fsub avg x) (fsub avg x)) xs
            in fdiv (fsum sqr) (Fin (real count - 1))))"

definition nanstd :: "fval list \<Rightarrow> fval" where
  "nanstd xs = fsqrt (nanvar xs)"

text \<open>
  \<^verbatim>\<open>sum(axis=0)\<close>, the total of one column, in the type of the column. An int64
  total wraps around. A float64 total skips the NaN cells; the cells are added one after
  the other and a partial sum that leaves the range becomes an infinity (the order of the
  additions matters only for a column with cells of both signs).
\<close>

definition int64_sum :: "int list \<Rightarrow> int" where
  "int64_sum ns = wrap64 (sum_list ns)"

fun fsum_from :: "fval \<Rightarrow> fval list \<Rightarrow> fval" where
  "fsum_from a [] = a"
| "fsum_from a (x # xs) = fsum_from (fround (fadd a x)) xs"

definition float64_sum :: "fval list \<Rightarrow> fval" where
  "float64_sum xs = fsum_from (Fin 0) (map (\<lambda>x. if isna x then Fin 0 else x) xs)"

fun column_total :: "series \<Rightarrow> cell" where
  "column_total (Int64 ns) = I64 (int64_sum ns)"
| "column_total (Float64 xs) = F64 (float64_sum xs)"

section \<open>Means of a genome bin (combine\_abundance\_coverage.py)\<close>

text \<open>
  \<^verbatim>\<open>classify_mags\<close> on one genome bin, given its relative abundance cells and its
  coverage cells in the joined table (a cell is NaN where a source has no value): the two
  means and the label.
\<close>

record mag_row =
  Mean_RA :: fval
  Mean_Cov :: fval
  Classification :: string

definition classify_mags_row :: "fval list \<Rightarrow> fval list \<Rightarrow> mag_row" where
  "classify_mags_row ra cov =
     \<lparr>Mean_RA = nanmean ra, Mean_Cov = nanmean cov,
      Classification = classify (nanmean ra) (nanmean cov)\<rparr>"

section \<open>Tables\<close>

text \<open>
  A DataFrame: the row labels (feature identifiers) and, for each sample, the name of
  the column and the column, which holds one cell for each row label. The alignment
  treats a column as the list of its cells, of whatever type; the normalization needs the
  type of the column.
\<close>

record 'c dataframe =
  index :: "string list"
  columns :: "(string \<times> 'c) list"

datatype py_error = KeyError string

section \<open>Alignment (01\_load\_and\_prepare\_data.py)\<close>

text \<open>
  \<^verbatim>\<open>Index.intersection\<close>: the labels of the first index that occur in the second,
  each once.
\<close>

definition intersection :: "string list \<Rightarrow> string list \<Rightarrow> string list" where
  "intersection a b = filter (\<lambda>k. k \<in> set b) (rev (remdups (rev a)))"

text \<open>The cells of a column at the rows that carry the label \<open>k\<close>.\<close>

definition select_label :: "string list \<Rightarrow> 'a list \<Rightarrow> string \<Rightarrow> 'a list" where
  "select_label idx xs k = map snd (filter (\<lambda>(k', x). k' = k) (zip idx xs))"

text \<open>\<^verbatim>\<open>df.loc[keys]\<close> with a list of labels: a label that is not in the index raises.\<close>

definition loc :: "'a list dataframe \<Rightarrow> string list \<Rightarrow> py_error + 'a list dataframe" where
  "loc df keys =
     (case filter (\<lambda>k. k \<notin> set (index df)) keys of
        k # _ \<Rightarrow> Inl (KeyError k)
      | [] \<Rightarrow>
          Inr \<lparr>index = concat (map (select_label (index df) (index df)) keys),
               columns = map (\<lambda>(c, xs). (c, concat (map (select_label (index df) xs) keys)))
                            (columns df)\<rparr>)"

text \<open>
  What \<^verbatim>\<open>main\<close> prints about the overlap, and the two aligned tables it writes to
  \<^verbatim>\<open>results/\<close> and returns.
\<close>

record 'a alignment =
  n_common :: nat
  n_mg_specific :: int
  n_mtx_specific :: int
  mg_aligned :: "'a list dataframe"
  mtx_aligned :: "'a list dataframe"

definition main_load ::
  "'a list dataframe \<Rightarrow> 'a list dataframe \<Rightarrow> py_error + 'a alignment" where
  "main_load mg_genes mtx_transcripts =
     (let common_genes = intersection (index mg_genes) (index mtx_transcripts)
      in case loc mg_genes common_genes of
           Inl e \<Rightarrow> Inl e
         | Inr mg \<Rightarrow>
             (case loc mtx_transcripts common_genes of
                Inl e \<Rightarrow> Inl e
              | Inr mtx \<Rightarrow>
                  Inr \<lparr>n_common = length common_genes,
                       n_mg_specific = int (length (index mg_genes)) - int (length common_genes),
                       n_mtx_specific =
                         int (length (index mtx_transcripts)) - int (length common_genes),
                       mg_aligned = mg,
                       mtx_aligned = mtx\<rparr>))"

section \<open>Depth normalization (02\_normalize\_data.py, taxonomy\_integration.py)\<close>

text \<open>
  \<^verbatim>\<open>(df / df.sum(axis=0)) * K\<close>: every column is divided by its own total, in
  float64, and scaled; the result is a float64 column.
\<close>

definition scale_cell :: "fval \<Rightarrow> fval \<Rightarrow> fval \<Rightarrow> fval" where
  "scale_cell K tot x = fround (fmul (fround (fdiv x tot)) K)"

definition normalize_column :: "fval \<Rightarrow> series \<Rightarrow> series" where
  "normalize_column K col =
     Float64 (map (scale_cell K (to_float (column_total col))) (cells col))"

definition depth_normalize :: "fval \<Rightarrow> series dataframe \<Rightarrow> series dataframe" where
  "depth_normalize K df =
     df\<lparr>columns := map (\<lambda>(c, col). (c, normalize_column K col)) (columns df)\<rparr>"

text \<open>\<^verbatim>\<open>normalize_cpm\<close>, with \<^verbatim>\<open>1e6\<close>.\<close>

definition normalize_cpm :: "series dataframe \<Rightarrow> series dataframe" where
  "normalize_cpm df = depth_normalize (Fin 1000000) df"

text \<open>The relative abundance in percent of the taxon script (\<^verbatim>\<open>mg_taxa_rel\<close>).\<close>

definition taxa_rel :: "series dataframe \<Rightarrow> series dataframe" where
  "taxa_rel df = depth_normalize (Fin 100) df"

section \<open>Ratios\<close>

text \<open>
  The gene script: \<^verbatim>\<open>np.log2((mtx + pseudocount) / (mg + pseudocount))\<close> on the
  cells of two paired columns. The pseudocount is the Python integer 1, so each sum is
  taken in the type of its column; the division and the logarithm are in float64.
\<close>

definition pseudocount :: int where
  "pseudocount = 1"

definition expression_ratio :: "cell \<Rightarrow> cell \<Rightarrow> fval" where
  "expression_ratio mtx mg =
     flog2 (true_divide (add_int mtx pseudocount) (add_int mg pseudocount))"

text \<open>
  The taxon script: both columns of a taxon from its two means, which are float64 means
  of percentages.
\<close>

definition Activity_Score :: "fval \<Rightarrow> fval \<Rightarrow> fval" where
  "Activity_Score mtx_mean mg_mean = fdiv mtx_mean (fadd mg_mean (Fin 0.01))"

definition Log2_Ratio :: "fval \<Rightarrow> fval \<Rightarrow> fval" where
  "Log2_Ratio mtx_mean mg_mean =
     flog2 (fdiv (fadd mtx_mean (Fin 0.01)) (fadd mg_mean (Fin 0.01)))"

section \<open>Expression ratios of genes (03\_calculate\_expression\_ratios.py)\<close>

text \<open>
  The script works on the genes common to the two normalized tables and on the sample
  columns it has paired by name. A gene is given here by its cells in the paired columns:
  a list of pairs, the genomic value first, the activity value second.
\<close>

record ratio_row =
  ratios :: "fval list"
  Mean_Log2_Ratio :: fval
  StdDev :: fval

definition expression_row :: "(cell \<times> cell) list \<Rightarrow> ratio_row" where
  "expression_row pairs =
     (let rs = map (\<lambda>(mg, mtx). expression_ratio mtx mg) pairs
      in \<lparr>ratios = rs, Mean_Log2_Ratio = nanmean rs, StdDev = nanstd rs\<rparr>)"

definition expression_ratios :: "(cell \<times> cell) list list \<Rightarrow> ratio_row list" where
  "expression_ratios genes = map expression_row genes"

text \<open>The three counts of the summary, on the column of means.\<close>

definition highly_expressed :: "ratio_row \<Rightarrow> bool" where
  "highly_expressed r = fgt (Mean_Log2_Ratio r) (Fin 2)"

definition moderately_expressed :: "ratio_row \<Rightarrow> bool" where
  "moderately_expressed r =
     (fgt (Mean_Log2_Ratio r) (Fin 0) \<and> flt (Mean_Log2_Ratio r) (Fin 2))"

definition under_expressed :: "ratio_row \<Rightarrow> bool" where
  "under_expressed r = flt (Mean_Log2_Ratio r) (Fin 0)"

definition highly_expressed_count :: "ratio_row list \<Rightarrow> nat" where
  "highly_expressed_count rows = length (filter highly_expressed rows)"

definition moderately_expressed_count :: "ratio_row list \<Rightarrow> nat" where
  "moderately_expressed_count rows = length (filter moderately_expressed rows)"

definition under_expressed_count :: "ratio_row list \<Rightarrow> nat" where
  "under_expressed_count rows = length (filter under_expressed rows)"

section \<open>Properties of the classification\<close>

lemma fle_not_fgt: "\<not> isna a \<Longrightarrow> fle a (Fin t) = (\<not> fgt a (Fin t))"
  by (cases a) (auto simp: fgt_def)

lemma fgt_self: "\<not> fgt (Fin t) (Fin t)"
  by (simp add: fgt_def)

text \<open>
  Claim C5. The classification of the source is the two-threshold rule at 5 and 80. For
  every pair of values and every pair of thresholds the rule returns one of its five
  labels; a NaN on either axis gives \<open>Incomplete_Data\<close> whatever the other axis holds,
  the test coming first; otherwise the label is decided by the two strict comparisons
  \<open>ra > t_ra\<close> and \<open>cov > t_cov\<close> alone, so that a value equal to its threshold is on
  the low side of its axis.
\<close>

theorem classify_total_tiebreak:
  "classify ra cov = classify_at 5 80 ra cov
   \<and> classify_at t_ra t_cov ra cov \<in> labels
   \<and> (isna ra \<or> isna cov \<longrightarrow> classify_at t_ra t_cov ra cov = ''Incomplete_Data'')
   \<and> (\<not> isna ra \<and> \<not> isna cov \<longrightarrow>
        classify_at t_ra t_cov ra cov =
          (if fgt ra (Fin t_ra)
           then (if fgt cov (Fin t_cov) then ''High_Abundance_High_Coverage''
                 else ''High_Abundance_Low_Coverage'')
           else (if fgt cov (Fin t_cov) then ''Low_Abundance_High_Coverage''
                 else ''Low_Abundance_Low_Coverage'')))
   \<and> (\<not> isna cov \<longrightarrow> classify_at t_ra t_cov (Fin t_ra) cov \<in>
        {''Low_Abundance_High_Coverage'', ''Low_Abundance_Low_Coverage''})
   \<and> (\<not> isna ra \<longrightarrow> classify_at t_ra t_cov ra (Fin t_cov) \<in>
        {''High_Abundance_Low_Coverage'', ''Low_Abundance_Low_Coverage''})"
proof -
  have a: "classify ra cov = classify_at 5 80 ra cov"
    by (simp add: classify_def classify_at_def)
  have b: "classify_at t_ra t_cov ra cov \<in> labels"
    by (simp add: classify_at_def labels_def)
  have c: "isna ra \<or> isna cov \<longrightarrow> classify_at t_ra t_cov ra cov = ''Incomplete_Data''"
    by (simp add: classify_at_def)
  have d: "\<not> isna ra \<and> \<not> isna cov \<longrightarrow>
        classify_at t_ra t_cov ra cov =
          (if fgt ra (Fin t_ra)
           then (if fgt cov (Fin t_cov) then ''High_Abundance_High_Coverage''
                 else ''High_Abundance_Low_Coverage'')
           else (if fgt cov (Fin t_cov) then ''Low_Abundance_High_Coverage''
                 else ''Low_Abundance_Low_Coverage''))"
    by (simp add: classify_at_def fle_not_fgt)
  have e: "\<not> isna cov \<longrightarrow> classify_at t_ra t_cov (Fin t_ra) cov \<in>
        {''Low_Abundance_High_Coverage'', ''Low_Abundance_Low_Coverage''}"
    by (simp add: classify_at_def fle_not_fgt fgt_self)
  have f: "\<not> isna ra \<longrightarrow> classify_at t_ra t_cov ra (Fin t_cov) \<in>
        {''High_Abundance_Low_Coverage'', ''Low_Abundance_Low_Coverage''}"
    by (simp add: classify_at_def fle_not_fgt fgt_self)
  from a b c d e f show ?thesis by blast
qed

theorem classify_total_tiebreak_witness:
  "classify NaN (Fin 90) = ''Incomplete_Data''
   \<and> classify (Fin 5) (Fin 80) = ''Low_Abundance_Low_Coverage''
   \<and> classify (Fin 5) (Fin 81) = ''Low_Abundance_High_Coverage''
   \<and> classify (Fin 6) (Fin 80) = ''High_Abundance_Low_Coverage''"
  using classify_total_tiebreak [of NaN "Fin 90" 5 80]
    classify_total_tiebreak [of "Fin 5" "Fin 80" 5 80]
    classify_total_tiebreak [of "Fin 5" "Fin 81" 5 80]
    classify_total_tiebreak [of "Fin 6" "Fin 80" 5 80]
  by (simp add: fgt_def)

section \<open>Properties of the ratios\<close>

lemma wrap64_id: "- (2 ^ 63) \<le> i \<Longrightarrow> i < 2 ^ 63 \<Longrightarrow> wrap64 i = i"
  by (simp add: wrap64_def)

lemma add_pseudocount:
  assumes "0 \<le> x"
    and "c = F64 (Fin x) \<or> (\<exists>n. c = I64 n \<and> x = real_of_int n \<and> n < 2 ^ 63 - 1)"
  shows "to_float (add_int c pseudocount) = Fin (x + 1)"
  using assms(2)
proof
  assume "c = F64 (Fin x)"
  then show ?thesis by (simp add: pseudocount_def)
next
  assume "\<exists>n. c = I64 n \<and> x = real_of_int n \<and> n < 2 ^ 63 - 1"
  then obtain n where n: "c = I64 n" "x = real_of_int n" "n < 2 ^ 63 - 1" by blast
  from assms(1) n(2) have "0 \<le> n" by simp
  with n(3) have "wrap64 (n + 1) = n + 1" by (intro wrap64_id) simp_all
  with n show ?thesis by (simp add: pseudocount_def)
qed

lemma expression_ratio_Fin:
  assumes "0 \<le> v" and "0 \<le> g"
    and "mtx = F64 (Fin v) \<or> (\<exists>n. mtx = I64 n \<and> v = real_of_int n \<and> n < 2 ^ 63 - 1)"
    and "mg = F64 (Fin g) \<or> (\<exists>n. mg = I64 n \<and> g = real_of_int n \<and> n < 2 ^ 63 - 1)"
  shows "expression_ratio mtx mg = Fin (log 2 ((v + 1) / (g + 1)))"
proof -
  have "0 < v + 1" and "0 < g + 1" using assms(1,2) by linarith+
  then have "g + 1 \<noteq> 0" and "0 < (v + 1) / (g + 1)" by simp_all
  then show ?thesis
    using add_pseudocount [OF assms(1,3)] add_pseudocount [OF assms(2,4)]
    by (simp add: expression_ratio_def true_divide_def)
qed

lemma Log2_Ratio_Fin:
  assumes "0 \<le> v" and "0 \<le> g"
  shows "Log2_Ratio (Fin v) (Fin g) = Fin (log 2 ((v + 0.01) / (g + 0.01)))"
proof -
  have "0 < v + 0.01" and "0 < g + 0.01" using assms by (simp_all add: add_nonneg_pos)
  then have "g + 0.01 \<noteq> 0" and "0 < (v + 0.01) / (g + 0.01)" by simp_all
  then show ?thesis by (simp add: Log2_Ratio_def)
qed

lemma log_swap:
  assumes "0 < a" and "0 < b"
  shows "log 2 (b / a) = - log 2 (a / b)"
  using assms by (simp add: log_divide)

lemma log2_8: "log 2 8 = (3::real)"
proof -
  have "log 2 (2 ^ 3) = (3::real)" by (subst log_pow_cancel) simp_all
  then show ?thesis by simp
qed

lemma log2_4: "log 2 4 = (2::real)"
proof -
  have "log 2 (2 ^ 2) = (2::real)" by (subst log_pow_cancel) simp_all
  then show ?thesis by simp
qed

lemma log2_quarter: "log 2 (1 / 4) = (- 2::real)"
  using log2_4 by (simp add: log_divide)

lemma log2_16: "log 2 16 = (4::real)"
proof -
  have "log 2 (2 ^ 4) = (4::real)" by (subst log_pow_cancel) simp_all
  then show ?thesis by simp
qed

text \<open>
  Claim C4, as the code has it. Take an activity value \<open>v \<ge> 0\<close> and a genomic value
  \<open>g \<ge> 0\<close>, each held in a float64 column or in an int64 column with a value below
  \<open>2\<^sup>6\<^sup>3 - 1\<close>. With the pseudocount 1 of the gene script the divisor is \<open>g + 1\<close>, which
  is not zero, and the ratio is the finite number \<open>log\<^sub>2 ((v + 1) / (g + 1))\<close>, neither
  an infinity nor NaN. With the 0.01 of the taxon script, on float64 means, the divisor
  \<open>g + 0.01\<close> is not zero and the ratio is the finite number
  \<open>log\<^sub>2 ((v + 0.01) / (g + 0.01))\<close>. The ratio of two zeros is 0.
\<close>

theorem expression_ratio_defined:
  assumes "0 \<le> v" and "0 \<le> g"
    and "mtx = F64 (Fin v) \<or> (\<exists>n. mtx = I64 n \<and> v = real_of_int n \<and> n < 2 ^ 63 - 1)"
    and "mg = F64 (Fin g) \<or> (\<exists>n. mg = I64 n \<and> g = real_of_int n \<and> n < 2 ^ 63 - 1)"
  shows "to_float (add_int mg pseudocount) = Fin (g + 1) \<and> g + 1 \<noteq> 0
    \<and> expression_ratio mtx mg = Fin (log 2 ((v + 1) / (g + 1)))
    \<and> g + 0.01 \<noteq> 0
    \<and> Log2_Ratio (Fin v) (Fin g) = Fin (log 2 ((v + 0.01) / (g + 0.01)))
    \<and> expression_ratio (I64 0) (I64 0) = Fin 0
    \<and> expression_ratio (F64 (Fin 0)) (F64 (Fin 0)) = Fin 0
    \<and> Log2_Ratio (Fin 0) (Fin 0) = Fin 0"
proof -
  have "0 < g + 0.01" using assms(2) by (simp add: add_nonneg_pos)
  then have a: "g + 1 \<noteq> 0" "g + 0.01 \<noteq> 0" using assms(2) by simp_all
  have b: "expression_ratio (I64 0) (I64 0) = Fin 0"
    using expression_ratio_Fin [of 0 0 "I64 0" "I64 0"] by simp
  have c: "expression_ratio (F64 (Fin 0)) (F64 (Fin 0)) = Fin 0"
    using expression_ratio_Fin [of 0 0 "F64 (Fin 0)" "F64 (Fin 0)"] by simp
  have d: "Log2_Ratio (Fin 0) (Fin 0) = Fin 0"
    using Log2_Ratio_Fin [of 0 0] by simp
  show ?thesis
    using a b c d add_pseudocount [OF assms(2,4)] expression_ratio_Fin [OF assms]
      Log2_Ratio_Fin [OF assms(1,2)]
    by simp
qed

theorem expression_ratio_defined_witness:
  "expression_ratio (I64 3) (I64 0) = Fin (log 2 4)
   \<and> expression_ratio (F64 (Fin 0)) (I64 9223372036854775806) =
       Fin (log 2 (1 / 9223372036854775807))
   \<and> Log2_Ratio (Fin 0) (Fin 0) = Fin 0"
  using expression_ratio_defined [of 3 0 "I64 3" "I64 0"]
    expression_ratio_defined [of 0 9223372036854775806 "F64 (Fin 0)" "I64 9223372036854775806"]
  by simp

text \<open>
  Claim C4 as written covers every \<open>v \<ge> 0\<close>. In an int64 column the activity value
  \<open>2\<^sup>6\<^sup>3 - 1\<close> plus the pseudocount wraps around to \<open>- 2\<^sup>6\<^sup>3\<close>; with the genomic
  value 0 the quotient is negative and the ratio is NaN.
\<close>

theorem int64_ratio_counterexample:
  "expression_ratio (I64 9223372036854775807) (I64 0) = NaN"
  by (simp add: expression_ratio_def true_divide_def pseudocount_def wrap64_def)

text \<open>
  Claim C6, as the code has it. For \<open>v \<ge> 0\<close> and \<open>g \<ge> 0\<close>, each held in a float64
  column or in an int64 column with a value below \<open>2\<^sup>6\<^sup>3 - 1\<close>, the ratio of the gene
  script is a real number \<open>r\<close> and the ratio with the two values exchanged is \<open>- r\<close>;
  the same holds for the ratio of the taxon script on float64 means.
\<close>

theorem expression_ratio_antisymmetric:
  assumes "0 \<le> v" and "0 \<le> g"
    and "mtx = F64 (Fin v) \<or> (\<exists>n. mtx = I64 n \<and> v = real_of_int n \<and> n < 2 ^ 63 - 1)"
    and "mg = F64 (Fin g) \<or> (\<exists>n. mg = I64 n \<and> g = real_of_int n \<and> n < 2 ^ 63 - 1)"
  shows "(\<exists>r. expression_ratio mtx mg = Fin r \<and> expression_ratio mg mtx = Fin (- r))
    \<and> expression_ratio mtx mg = fneg (expression_ratio mg mtx)
    \<and> (\<exists>r. Log2_Ratio (Fin v) (Fin g) = Fin r \<and> Log2_Ratio (Fin g) (Fin v) = Fin (- r))
    \<and> Log2_Ratio (Fin v) (Fin g) = fneg (Log2_Ratio (Fin g) (Fin v))"
proof -
  have p1: "0 < v + 1" "0 < g + 1" using assms(1,2) by linarith+
  have p2: "0 < v + 0.01" "0 < g + 0.01" using assms(1,2) by (simp_all add: add_nonneg_pos)
  have a: "expression_ratio mg mtx = Fin (- log 2 ((v + 1) / (g + 1)))"
    using expression_ratio_Fin [OF assms(2,1,4,3)] log_swap [OF p1] by simp
  have b: "Log2_Ratio (Fin g) (Fin v) = Fin (- log 2 ((v + 0.01) / (g + 0.01)))"
    using Log2_Ratio_Fin [OF assms(2,1)] log_swap [OF p2] by simp
  show ?thesis
    using a b expression_ratio_Fin [OF assms] Log2_Ratio_Fin [OF assms(1,2)] by simp
qed

theorem expression_ratio_antisymmetric_witness:
  "expression_ratio (I64 3) (F64 (Fin 0)) = fneg (expression_ratio (F64 (Fin 0)) (I64 3))
   \<and> Log2_Ratio (Fin 3) (Fin 0) = fneg (Log2_Ratio (Fin 0) (Fin 3))"
  using expression_ratio_antisymmetric [of 3 0 "I64 3" "F64 (Fin 0)"]
  by simp

text \<open>
  Claim C6 as written covers every \<open>v \<ge> 0\<close>. With the activity value \<open>2\<^sup>6\<^sup>3 - 1\<close> and
  the genomic value 0 in int64 columns, the ratio and the ratio of the exchanged values
  are both NaN: neither is the negation of a number.
\<close>

theorem int64_antisymmetry_counterexample:
  "expression_ratio (I64 9223372036854775807) (I64 0) = NaN
   \<and> expression_ratio (I64 0) (I64 9223372036854775807) = NaN
   \<and> \<not> (\<exists>r. expression_ratio (I64 9223372036854775807) (I64 0) = Fin r
            \<and> expression_ratio (I64 0) (I64 9223372036854775807) = Fin (- r))"
  by (simp add: expression_ratio_def true_divide_def pseudocount_def wrap64_def)

text \<open>
  Claim C10. For two non-negative means the divisor \<open>mg_mean + 0.01\<close> of the activity
  score is positive, the score is the finite, non-negative number
  \<open>mtx_mean / (mg_mean + 0.01)\<close>, and it is 0 when the activity mean is 0: nothing is
  added to the numerator, so a zero activity has the score 0, and only a positive activity
  has a positive score.
\<close>

theorem activity_score_defined:
  assumes "0 \<le> mg_mean" and "0 \<le> mtx_mean"
  shows "0 < mg_mean + 0.01
    \<and> Activity_Score (Fin mtx_mean) (Fin mg_mean) = Fin (mtx_mean / (mg_mean + 0.01))
    \<and> 0 \<le> mtx_mean / (mg_mean + 0.01)
    \<and> Activity_Score (Fin 0) (Fin mg_mean) = Fin 0
    \<and> (0 < mtx_mean \<longrightarrow> 0 < mtx_mean / (mg_mean + 0.01))"
proof -
  have pos: "0 < mg_mean + 0.01" using assms by simp
  then have ne: "mg_mean + 0.01 \<noteq> 0" by simp
  have a: "Activity_Score (Fin mtx_mean) (Fin mg_mean) = Fin (mtx_mean / (mg_mean + 0.01))"
    using ne by (simp add: Activity_Score_def)
  have b: "Activity_Score (Fin 0) (Fin mg_mean) = Fin 0"
    using ne by (simp add: Activity_Score_def)
  have c: "0 \<le> mtx_mean / (mg_mean + 0.01)" using pos assms by simp
  have d: "0 < mtx_mean \<longrightarrow> 0 < mtx_mean / (mg_mean + 0.01)" using pos by simp
  from pos a b c d show ?thesis by blast
qed

theorem activity_score_defined_witness:
  "Activity_Score (Fin 0) (Fin 0) = Fin 0 \<and> Activity_Score (Fin 3) (Fin 0) = Fin 300"
  using activity_score_defined [of 0 0] activity_score_defined [of 0 3] by simp

section \<open>Properties of the reductions\<close>

lemma fadd_zero_left: "fadd (Fin 0) x = x"
  by (cases x) simp_all

lemma fsum_Fin: "fsum (map Fin ys) = Fin (sum_list ys)"
  by (induction ys) simp_all

lemma fsum_masked:
  "fsum (map (\<lambda>x. if isna x then Fin 0 else f x) xs)
     = fsum (map f (filter (\<lambda>x. \<not> isna x) xs))"
  by (induction xs) (simp_all add: fadd_zero_left)

lemma filter_notna_Fin: "filter (\<lambda>x. \<not> isna x) (map Fin ys) = map Fin ys"
  by (induction ys) simp_all

lemma nansum_defined:
  assumes "filter (\<lambda>x. \<not> isna x) xs = map Fin ys"
  shows "nansum xs = Fin (sum_list ys)"
proof -
  have "nansum xs = fsum (map (\<lambda>x. x) (filter (\<lambda>x. \<not> isna x) xs))"
    unfolding nansum_def by (rule fsum_masked)
  then show ?thesis using assms by (simp add: fsum_Fin)
qed

lemma nansum_Fin: "nansum (map Fin rs) = Fin (sum_list rs)"
  by (rule nansum_defined) (rule filter_notna_Fin)

lemma count_defined:
  assumes "filter (\<lambda>x. \<not> isna x) xs = map Fin ys"
  shows "count_notna xs = length ys"
  using assms by (simp add: count_notna_def)

lemma nanmean_defined:
  assumes "filter (\<lambda>x. \<not> isna x) xs = map Fin ys"
  shows "nanmean xs = (if ys = [] then NaN else Fin (sum_list ys / real (length ys)))"
  using nansum_defined [OF assms] count_defined [OF assms]
  by (simp add: nanmean_def)

lemma nanvar_defined:
  assumes "filter (\<lambda>x. \<not> isna x) xs = map Fin ys"
  shows "nanvar xs =
    (if length ys \<le> 1 then NaN
     else Fin (sum_list (map (\<lambda>y. (y - sum_list ys / real (length ys))\<^sup>2) ys)
                / (real (length ys) - 1)))"
proof (cases "length ys \<le> 1")
  case True
  then show ?thesis using count_defined [OF assms] by (simp add: nanvar_def)
next
  case False
  define m where "m = sum_list ys / real (length ys)"
  have n0: "real (length ys) \<noteq> 0" and n1: "real (length ys) - 1 \<noteq> 0"
    using False by auto
  have avg: "fdiv (nansum xs) (Fin (real (length ys))) = Fin m"
    using nansum_defined [OF assms] n0 by (simp add: m_def)
  have "fsum (map (\<lambda>x. if isna x then Fin 0 else fmul (fsub (Fin m) x) (fsub (Fin m) x)) xs)
      = fsum (map (\<lambda>x. fmul (fsub (Fin m) x) (fsub (Fin m) x)) (filter (\<lambda>x. \<not> isna x) xs))"
    by (rule fsum_masked)
  also have "\<dots> = fsum (map Fin (map (\<lambda>y. (y - m)\<^sup>2) ys))"
    unfolding assms by (simp add: fsub_def power2_eq_square comp_def algebra_simps)
  also have "\<dots> = Fin (sum_list (map (\<lambda>y. (y - m)\<^sup>2) ys))"
    by (rule fsum_Fin)
  finally have sq: "fsum (map (\<lambda>x. if isna x then Fin 0
        else fmul (fsub (Fin m) x) (fsub (Fin m) x)) xs)
      = Fin (sum_list (map (\<lambda>y. (y - m)\<^sup>2) ys))" .
  show ?thesis
    using False count_defined [OF assms] n1
    by (simp add: nanvar_def Let_def avg [unfolded m_def] sq [unfolded m_def])
qed

lemma sum_squares_nonneg: "0 \<le> sum_list (map (\<lambda>y. (y - m)\<^sup>2) ys)" for m :: real
  by (induction ys) simp_all

lemma nanstd_defined:
  assumes "filter (\<lambda>x. \<not> isna x) xs = map Fin ys"
  shows "nanstd xs =
    (if length ys \<le> 1 then NaN
     else Fin (sqrt (sum_list (map (\<lambda>y. (y - sum_list ys / real (length ys))\<^sup>2) ys)
                / (real (length ys) - 1))))"
proof (cases "length ys \<le> 1")
  case True
  then show ?thesis using nanvar_defined [OF assms] by (simp add: nanstd_def)
next
  case False
  then have "0 < real (length ys) - 1" by auto
  then have "0 \<le> sum_list (map (\<lambda>y. (y - sum_list ys / real (length ys))\<^sup>2) ys)
                / (real (length ys) - 1)"
    using sum_squares_nonneg by simp
  then show ?thesis using False nanvar_defined [OF assms] by (simp add: nanstd_def)
qed

lemma expression_row_fields:
  "Mean_Log2_Ratio (expression_row pairs) = nanmean (ratios (expression_row pairs))"
  "StdDev (expression_row pairs) = nanstd (ratios (expression_row pairs))"
  by (simp_all add: expression_row_def Let_def)

lemma ratios_expression_row:
  "ratios (expression_row pairs) = map (\<lambda>(mg, mtx). expression_ratio mtx mg) pairs"
  by (simp add: expression_row_def Let_def)

section \<open>Aggregation\<close>

text \<open>
  Claim C8, as the code has it. For a gene whose \<open>n\<close> per-sample ratios are all defined,
  the mean column holds their arithmetic mean when \<open>n \<ge> 1\<close>, and the dispersion column
  holds their sample standard deviation with the divisor \<open>n - 1\<close> when \<open>n > 1\<close>; with a
  single ratio the dispersion is NaN.
\<close>

theorem aggregation_mean_std:
  assumes "ratios (expression_row pairs) = map Fin ys" and "n = length ys"
  shows "(1 \<le> n \<longrightarrow> Mean_Log2_Ratio (expression_row pairs) = Fin (sum_list ys / real n))
    \<and> (1 < n \<longrightarrow> StdDev (expression_row pairs) =
          Fin (sqrt (sum_list (map (\<lambda>y. (y - sum_list ys / real n)\<^sup>2) ys) / (real n - 1))))
    \<and> (n = 1 \<longrightarrow> StdDev (expression_row pairs) = NaN)"
proof -
  have f: "filter (\<lambda>x. \<not> isna x) (ratios (expression_row pairs)) = map Fin ys"
    using assms(1) by (simp add: filter_notna_Fin)
  show ?thesis
    using nanmean_defined [OF f] nanstd_defined [OF f] assms(2)
    by (auto simp: expression_row_fields)
qed

theorem aggregation_mean_std_witness:
  "Mean_Log2_Ratio (expression_row [(F64 (Fin 0), F64 (Fin 0)), (F64 (Fin 0), F64 (Fin 3))]) = Fin (log 2 4 / 2)
   \<and> StdDev (expression_row [(F64 (Fin 0), F64 (Fin 0)), (F64 (Fin 0), F64 (Fin 3))]) =
       Fin (sqrt ((0 - log 2 4 / 2)\<^sup>2 + (log 2 4 - log 2 4 / 2)\<^sup>2))
   \<and> StdDev (expression_row [(F64 (Fin 0), F64 (Fin 3))]) = NaN"
  using aggregation_mean_std [of "[(F64 (Fin 0), F64 (Fin 0)), (F64 (Fin 0), F64 (Fin 3))]" "[0, log 2 4]" 2]
    aggregation_mean_std [of "[(F64 (Fin 0), F64 (Fin 3))]" "[log 2 4]" 1]
  by (simp add: expression_row_def expression_ratio_def true_divide_def pseudocount_def Let_def)

text \<open>
  Claim C8 as written asks for the dispersion 0 when a gene has a single ratio. A gene
  with the genomic value 3 and the activity value 1 in its only sample pair has one
  ratio, and its dispersion is NaN, not 0.
\<close>

theorem single_sample_std_counterexample:
  "length (ratios (expression_row [(F64 (Fin 3), F64 (Fin 1))])) = 1
   \<and> StdDev (expression_row [(F64 (Fin 3), F64 (Fin 1))]) = NaN
   \<and> StdDev (expression_row [(F64 (Fin 3), F64 (Fin 1))]) \<noteq> Fin 0"
  by (simp add: expression_row_def expression_ratio_def true_divide_def pseudocount_def nanstd_def nanvar_def
      count_notna_def Let_def)

text \<open>
  Claim C9. The mean and the standard deviation of a gene are those of its defined
  ratios: when the ratios of its sample pairs that are not NaN are the numbers \<open>ys\<close>,
  the mean column holds the sum of \<open>ys\<close> over the number of \<open>ys\<close> (not over the number
  of sample pairs, as a zero in place of each NaN would give) and the dispersion column
  holds the sample standard deviation of \<open>ys\<close>; a gene with no defined ratio has the mean
  NaN. In the same way the mean abundance and the mean coverage of a genome bin are the
  means of its defined cells.
\<close>

theorem aggregation_skips_nan:
  assumes "filter (\<lambda>r. \<not> isna r) (map (\<lambda>(mg, mtx). expression_ratio mtx mg) pairs)
             = map Fin ys"
    and "filter (\<lambda>x. \<not> isna x) ra = map Fin zs"
    and "filter (\<lambda>x. \<not> isna x) cov = map Fin ws"
  shows "Mean_Log2_Ratio (expression_row pairs) =
        (if ys = [] then NaN else Fin (sum_list ys / real (length ys)))
    \<and> StdDev (expression_row pairs) =
        (if length ys \<le> 1 then NaN
         else Fin (sqrt (sum_list (map (\<lambda>y. (y - sum_list ys / real (length ys))\<^sup>2) ys)
                          / (real (length ys) - 1))))
    \<and> Mean_RA (classify_mags_row ra cov) =
        (if zs = [] then NaN else Fin (sum_list zs / real (length zs)))
    \<and> Mean_Cov (classify_mags_row ra cov) =
        (if ws = [] then NaN else Fin (sum_list ws / real (length ws)))"
proof -
  have f: "filter (\<lambda>r. \<not> isna r) (ratios (expression_row pairs)) = map Fin ys"
    using assms(1) by (simp only: ratios_expression_row)
  show ?thesis
    using nanmean_defined [OF f] nanstd_defined [OF f]
      nanmean_defined [OF assms(2)] nanmean_defined [OF assms(3)]
    by (simp add: expression_row_fields classify_mags_row_def)
qed

theorem aggregation_skips_nan_witness:
  "Mean_Log2_Ratio (expression_row
       [(F64 NaN, F64 (Fin 0)), (F64 (Fin 0), F64 (Fin 3)), (F64 (Fin 0), F64 (Fin 15))]) = Fin 3
   \<and> StdDev (expression_row
       [(F64 NaN, F64 (Fin 0)), (F64 (Fin 0), F64 (Fin 3)), (F64 (Fin 0), F64 (Fin 15))])
       = Fin (sqrt 2)
   \<and> Mean_RA (classify_mags_row [NaN, Fin 6, Fin 8] [Fin 90, NaN]) = Fin 7
   \<and> Mean_Cov (classify_mags_row [NaN, Fin 6, Fin 8] [Fin 90, NaN]) = Fin 90"
  using aggregation_skips_nan [of
      "[(F64 NaN, F64 (Fin 0)), (F64 (Fin 0), F64 (Fin 3)), (F64 (Fin 0), F64 (Fin 15))]"
      "[2, 4]" "[NaN, Fin 6, Fin 8]" "[6, 8]" "[Fin 90, NaN]" "[90]"]
  by (simp add: expression_ratio_def true_divide_def pseudocount_def log2_4 log2_16)

section \<open>Depth normalization\<close>

lemma float_ovf_gt: "2 ^ 63 < float_ovf" "1000000 < float_ovf" "1 < float_ovf"
  by (simp_all add: float_ovf_def)

lemma fround_in_range: "- float_ovf < x \<Longrightarrow> x < float_ovf \<Longrightarrow> fround (Fin x) = Fin x"
  by simp

lemma fsum_from_Fin:
  assumes "0 \<le> a" and "\<forall>r\<in>set rs. 0 \<le> r" and "a + sum_list rs < float_ovf"
  shows "fsum_from (Fin a) (map Fin rs) = Fin (a + sum_list rs)"
  using assms
proof (induction rs arbitrary: a)
  case Nil
  then show ?case by simp
next
  case (Cons r rs)
  have nn: "0 \<le> sum_list rs" using Cons.prems(2) by (simp add: sum_list_nonneg)
  have "0 \<le> a + r" using Cons.prems by simp
  moreover have "a + r < float_ovf" using Cons.prems nn by simp
  moreover have "- float_ovf < a + r" using \<open>0 \<le> a + r\<close> float_ovf_gt(3) by linarith
  ultimately have "fsum_from (fround (Fin (a + r))) (map Fin rs) = Fin (a + r + sum_list rs)"
    using Cons.IH [of "a + r"] Cons.prems by (simp add: fround_in_range add.assoc)
  then show ?case by (simp add: add.assoc)
qed

lemma float64_sum_Fin:
  assumes "\<forall>r\<in>set rs. 0 \<le> r" and "sum_list rs < float_ovf"
  shows "float64_sum (map Fin rs) = Fin (sum_list rs)"
proof -
  have m: "map (\<lambda>x. if isna x then Fin 0 else x) (map Fin rs) = map Fin rs" by simp
  show ?thesis
    unfolding float64_sum_def m using fsum_from_Fin [of 0 rs] assms by simp
qed

lemma scale_cell_Fin:
  assumes "0 \<le> r" and "r \<le> t" and "0 < t" and "0 \<le> K" and "K < float_ovf"
  shows "scale_cell (Fin K) (Fin t) (Fin r) = Fin (r / t * K)"
proof -
  have q: "0 \<le> r / t" "r / t \<le> 1" using assms by simp_all
  then have "- float_ovf < r / t" "r / t < float_ovf" using float_ovf_gt(3) by linarith+
  then have a: "fround (fdiv (Fin r) (Fin t)) = Fin (r / t)"
    using assms(3) by (simp add: fround_in_range)
  have "0 \<le> r / t * K" using q(1) assms(4) by (rule mult_nonneg_nonneg)
  moreover have "r / t * K \<le> 1 * K" using q(2) assms(4) by (rule mult_right_mono)
  ultimately have "- float_ovf < r / t * K" "r / t * K < float_ovf"
    using assms(5) float_ovf_gt(3) by linarith+
  then show ?thesis unfolding scale_cell_def a by (simp add: fround_in_range)
qed

lemma sum_list_scaled: "sum_list (map (\<lambda>r. r / t * K) rs) = sum_list rs / t * K"
  for t K :: real
  by (induction rs) (simp_all add: algebra_simps add_divide_distrib)

lemma scaled_column_nonzero:
  assumes "\<forall>r\<in>set rs. 0 \<le> r" and "sum_list rs \<noteq> 0" and "0 \<le> K" and "K < float_ovf"
  shows "map (scale_cell (Fin K) (Fin (sum_list rs))) (map Fin rs)
           = map Fin (map (\<lambda>r. r / sum_list rs * K) rs)"
    and "float64_sum (map (scale_cell (Fin K) (Fin (sum_list rs))) (map Fin rs)) = Fin K"
proof -
  have pos: "0 < sum_list rs"
    using assms(1,2) sum_list_nonneg [of rs] by (simp add: order_less_le)
  have le: "\<forall>r\<in>set rs. r \<le> sum_list rs"
    using assms(1) member_le_sum_list by blast
  show eq: "map (scale_cell (Fin K) (Fin (sum_list rs))) (map Fin rs)
           = map Fin (map (\<lambda>r. r / sum_list rs * K) rs)"
    using assms(1,3,4) le pos by (simp add: scale_cell_Fin)
  have nn: "\<forall>q\<in>set (map (\<lambda>r. r / sum_list rs * K) rs). 0 \<le> q"
    using assms(1,3) pos by auto
  have tot: "sum_list (map (\<lambda>r. r / sum_list rs * K) rs) = K"
    unfolding sum_list_scaled using assms(2) by simp
  show "float64_sum (map (scale_cell (Fin K) (Fin (sum_list rs))) (map Fin rs)) = Fin K"
    unfolding eq using float64_sum_Fin [OF nn] tot assms(4) by simp
qed

lemma scaled_column_zero:
  assumes "\<forall>r\<in>set rs. 0 \<le> r" and "sum_list rs = 0"
  shows "map (scale_cell K (Fin (sum_list rs))) (map Fin rs) = map (\<lambda>r. NaN) rs"
proof -
  have "\<forall>r\<in>set rs. r = 0"
    using assms sum_list_nonneg_eq_0_iff [of rs] by auto
  then show ?thesis using assms(2) by (auto simp: scale_cell_def)
qed

lemma sum_list_of_int: "sum_list (map real_of_int ns) = real_of_int (sum_list ns)"
  by (induction ns) simp_all

lemma column_as_reals:
  assumes "col = Int64 ns \<and> (\<forall>n\<in>set ns. 0 \<le> n) \<and> sum_list ns < 2 ^ 63
             \<and> t = real_of_int (sum_list ns)
         \<or> col = Float64 (map Fin rs) \<and> (\<forall>r\<in>set rs. 0 \<le> r) \<and> sum_list rs < float_ovf
             \<and> t = sum_list rs"
  shows "\<exists>qs. cells col = map Fin qs \<and> (\<forall>q\<in>set qs. 0 \<le> q) \<and> sum_list qs = t
           \<and> to_float (column_total col) = Fin t"
  using assms
proof
  assume a: "col = Int64 ns \<and> (\<forall>n\<in>set ns. 0 \<le> n) \<and> sum_list ns < 2 ^ 63
             \<and> t = real_of_int (sum_list ns)"
  then have "0 \<le> sum_list ns" by (simp add: sum_list_nonneg)
  with a have w: "wrap64 (sum_list ns) = sum_list ns" by (simp add: wrap64_def)
  have "cells col = map Fin (map real_of_int ns)" using a by simp
  moreover have "\<forall>q\<in>set (map real_of_int ns). 0 \<le> q" using a by simp
  moreover have "sum_list (map real_of_int ns) = t" using a by (simp add: sum_list_of_int)
  moreover have "to_float (column_total col) = Fin t" using a w by (simp add: int64_sum_def)
  ultimately show ?thesis by blast
next
  assume a: "col = Float64 (map Fin rs) \<and> (\<forall>r\<in>set rs. 0 \<le> r) \<and> sum_list rs < float_ovf
             \<and> t = sum_list rs"
  then have "to_float (column_total col) = Fin t" by (simp add: float64_sum_Fin)
  with a show ?thesis by auto
qed

lemma columns_depth_normalize:
  assumes "j < length (columns df)" and "columns df ! j = (c, col)"
  shows "columns (depth_normalize K df) ! j = (c, normalize_column K col)"
  using assms by (simp add: depth_normalize_def)

lemma below_float_ovf: "x \<le> 2 ^ 64 \<Longrightarrow> x < float_ovf"
proof -
  assume a: "x \<le> 2 ^ 64"
  have "(2::real) ^ 64 < float_ovf" by (simp add: float_ovf_def)
  with a show ?thesis by linarith
qed

lemma fround_small: "\<bar>x\<bar> \<le> 2 ^ 64 \<Longrightarrow> fround (Fin x) = Fin x"
proof -
  assume a: "\<bar>x\<bar> \<le> 2 ^ 64"
  then have "x < float_ovf" and "- x < float_ovf" by (simp_all add: below_float_ovf)
  then show ?thesis by (intro fround_in_range) linarith+
qed

text \<open>
  Claim C3, as the code has it. Take a sample column of non-negative cells whose total
  stays in the range of its type: an int64 column with a total below \<open>2\<^sup>6\<^sup>3\<close>, or a
  float64 column with a total below the overflow bound. The total the code computes is
  then the sum \<open>t\<close> of the cells. The same column of the normalized table, per million
  (\<open>K = 1000000\<close>, \<^verbatim>\<open>normalize_cpm\<close>) or in percent (\<open>K = 100\<close>, the taxon script),
  keeps its name and its length and is a float64 column; when \<open>t\<close> is not zero each cell
  \<open>q\<close> has become \<open>q / t * K\<close> and the column sums to \<open>K\<close>, and when \<open>t\<close> is zero
  every cell of it is NaN.
\<close>

theorem normalized_column_total:
  assumes "j < length (columns df)"
    and "columns df ! j = (c, col)"
    and "col = Int64 ns \<and> (\<forall>n\<in>set ns. 0 \<le> n) \<and> sum_list ns < 2 ^ 63
             \<and> t = real_of_int (sum_list ns)
         \<or> col = Float64 (map Fin rs) \<and> (\<forall>r\<in>set rs. 0 \<le> r) \<and> sum_list rs < float_ovf
             \<and> t = sum_list rs"
    and "K = 1000000 \<and> out = normalize_cpm df \<or> K = 100 \<and> out = taxa_rel df"
  shows "to_float (column_total col) = Fin t
    \<and> (\<exists>qs ys. cells col = map Fin qs \<and> columns out ! j = (c, Float64 ys)
          \<and> length ys = length qs
          \<and> (t \<noteq> 0 \<longrightarrow> ys = map (\<lambda>q. Fin (q / t * K)) qs \<and> float64_sum ys = Fin K)
          \<and> (t = 0 \<longrightarrow> (\<forall>y\<in>set ys. y = NaN)))"
proof -
  obtain qs where qs: "cells col = map Fin qs" "\<forall>q\<in>set qs. 0 \<le> q" "sum_list qs = t"
      "to_float (column_total col) = Fin t"
    using column_as_reals [OF assms(3)] by blast
  define ys where "ys = map (scale_cell (Fin K) (Fin (sum_list qs))) (map Fin qs)"
  have K: "0 \<le> K" "K < float_ovf" using assms(4) float_ovf_gt(2) by auto
  have out: "out = depth_normalize (Fin K) df"
    using assms(4) by (auto simp: normalize_cpm_def taxa_rel_def)
  have "normalize_column (Fin K) col = Float64 ys"
    by (simp add: normalize_column_def qs ys_def)
  then have col: "columns out ! j = (c, Float64 ys)"
    unfolding out using columns_depth_normalize [OF assms(1,2)] by simp
  have len: "length ys = length qs" by (simp add: ys_def)
  have nz: "float64_sum ys = Fin K" if "t \<noteq> 0"
    unfolding ys_def using scaled_column_nonzero(2) [OF qs(2) _ K] that qs(3) by simp
  have vals: "ys = map (\<lambda>q. Fin (q / t * K)) qs" if "t \<noteq> 0"
    unfolding ys_def using scaled_column_nonzero(1) [OF qs(2) _ K] that qs(3) by simp
  have z: "\<forall>y\<in>set ys. y = NaN" if "t = 0"
    unfolding ys_def using scaled_column_zero [OF qs(2)] that qs(3) by simp
  show ?thesis using qs(1,4) col len nz vals z by blast
qed

theorem normalized_column_total_witness:
  "columns (normalize_cpm \<lparr>index = [''g1'', ''g2''],
       columns = [(''S1'', Int64 [1, 3]), (''S2'', Int64 [0, 0])]\<rparr>)
     = [(''S1'', Float64 [Fin 250000, Fin 750000]), (''S2'', Float64 [NaN, NaN])]
   \<and> float64_sum [Fin 250000, Fin 750000] = Fin 1000000
   \<and> columns (taxa_rel \<lparr>index = [''t1'', ''t2''],
       columns = [(''S01'', Float64 [Fin 1, Fin 3])]\<rparr>)
     = [(''S01'', Float64 [Fin 25, Fin 75])]
   \<and> float64_sum [Fin 25, Fin 75] = Fin 100"
  using normalized_column_total [of 0 "\<lparr>index = [''g1'', ''g2''],
       columns = [(''S1'', Int64 [1, 3]), (''S2'', Int64 [0, 0])]\<rparr>" "''S1''" "Int64 [1, 3]"
       "[1, 3]" 4 "[]" 1000000 "normalize_cpm \<lparr>index = [''g1'', ''g2''],
       columns = [(''S1'', Int64 [1, 3]), (''S2'', Int64 [0, 0])]\<rparr>"]
    normalized_column_total [of 1 "\<lparr>index = [''g1'', ''g2''],
       columns = [(''S1'', Int64 [1, 3]), (''S2'', Int64 [0, 0])]\<rparr>" "''S2''" "Int64 [0, 0]"
       "[0, 0]" 0 "[]" 1000000 "normalize_cpm \<lparr>index = [''g1'', ''g2''],
       columns = [(''S1'', Int64 [1, 3]), (''S2'', Int64 [0, 0])]\<rparr>"]
    normalized_column_total [of 0
       "\<lparr>index = [''t1'', ''t2''], columns = [(''S01'', Float64 [Fin 1, Fin 3])]\<rparr>"
       "''S01''" "Float64 [Fin 1, Fin 3]" "[]" 4 "[1, 3]"
       100 "taxa_rel \<lparr>index = [''t1'', ''t2''],
       columns = [(''S01'', Float64 [Fin 1, Fin 3])]\<rparr>"]
  by (simp add: normalize_cpm_def taxa_rel_def depth_normalize_def normalize_column_def
      scale_cell_def int64_sum_def wrap64_def float64_sum_def fround_small below_float_ovf
      del: fround.simps(1))

text \<open>
  Claim C3 as written covers every column of non-negative cells. The int64 column with
  the two cells \<open>2\<^sup>6\<^sup>2\<close> has a total that wraps around to \<open>- 2\<^sup>6\<^sup>3\<close>: its normalized
  cells are \<open>- 500000\<close> and sum to \<open>- 1000000\<close>. The float64 column with the two cells
  \<open>2\<^sup>1\<^sup>0\<^sup>2\<^sup>3\<close> has the total infinity: its normalized cells are 0 and sum to 0. Neither
  total is zero and neither normalized column sums to 1000000.
\<close>

theorem normalized_total_counterexample:
  "columns (normalize_cpm \<lparr>index = [''g1'', ''g2''],
       columns = [(''S1'', Int64 [4611686018427387904, 4611686018427387904]),
                  (''S2'', Float64 [Fin (2 ^ 1023), Fin (2 ^ 1023)])]\<rparr>)
     = [(''S1'', Float64 [Fin (- 500000), Fin (- 500000)]), (''S2'', Float64 [Fin 0, Fin 0])]
   \<and> float64_sum [Fin (- 500000), Fin (- 500000)] = Fin (- 1000000)
   \<and> float64_sum [Fin 0, Fin 0] = Fin 0"
  by (simp add: normalize_cpm_def depth_normalize_def normalize_column_def
      scale_cell_def int64_sum_def wrap64_def float64_sum_def float_ovf_def)

section \<open>The three bands of the summary\<close>

lemma bands_disjoint:
  "\<not> (highly_expressed r \<and> moderately_expressed r)"
  "\<not> (highly_expressed r \<and> under_expressed r)"
  "\<not> (moderately_expressed r \<and> under_expressed r)"
  by (cases "Mean_Log2_Ratio r";
      simp add: highly_expressed_def moderately_expressed_def under_expressed_def fgt_def)+

lemma band_membership:
  "(highly_expressed r \<or> moderately_expressed r \<or> under_expressed r)
     = (\<not> isna (Mean_Log2_Ratio r) \<and> Mean_Log2_Ratio r \<noteq> Fin 0 \<and> Mean_Log2_Ratio r \<noteq> Fin 2)"
  by (cases "Mean_Log2_Ratio r")
    (auto simp: highly_expressed_def moderately_expressed_def under_expressed_def fgt_def)

lemma band_count_sum:
  "highly_expressed_count rows + moderately_expressed_count rows + under_expressed_count rows
     = length (filter (\<lambda>r. \<not> isna (Mean_Log2_Ratio r) \<and> Mean_Log2_Ratio r \<noteq> Fin 0
          \<and> Mean_Log2_Ratio r \<noteq> Fin 2) rows)"
proof (induction rows)
  case Nil
  then show ?case
    by (simp add: highly_expressed_count_def moderately_expressed_count_def
        under_expressed_count_def)
next
  case (Cons r rows)
  then show ?case
    using bands_disjoint [of r] band_membership [of r]
    by (auto simp: highly_expressed_count_def moderately_expressed_count_def
        under_expressed_count_def)
qed

text \<open>
  Claim C1, as the code has it. The three bands of the summary (mean above 2, mean
  strictly between 0 and 2, mean below 0) are pairwise disjoint, so a gene is in at most
  one of them, and the three counts add up to the number of genes whose mean is defined
  and is neither 0 nor 2, which is at most the number of genes.
\<close>

theorem band_counts_partial:
  "(\<forall>r\<in>set rows. \<not> (highly_expressed r \<and> moderately_expressed r)
        \<and> \<not> (highly_expressed r \<and> under_expressed r)
        \<and> \<not> (moderately_expressed r \<and> under_expressed r))
   \<and> highly_expressed_count rows + moderately_expressed_count rows + under_expressed_count rows
       = length (filter (\<lambda>r. \<not> isna (Mean_Log2_Ratio r) \<and> Mean_Log2_Ratio r \<noteq> Fin 0
            \<and> Mean_Log2_Ratio r \<noteq> Fin 2) rows)
   \<and> highly_expressed_count rows + moderately_expressed_count rows + under_expressed_count rows
       \<le> length rows"
proof -
  have "length (filter (\<lambda>r. \<not> isna (Mean_Log2_Ratio r) \<and> Mean_Log2_Ratio r \<noteq> Fin 0
            \<and> Mean_Log2_Ratio r \<noteq> Fin 2) rows) \<le> length rows"
    by (rule length_filter_le)
  then show ?thesis using bands_disjoint band_count_sum [of rows] by simp
qed

theorem band_counts_partial_witness:
  "highly_expressed_count
       (expression_ratios [[(F64 (Fin 0), F64 (Fin 0))], [(F64 (Fin 3), F64 (Fin 0))], [(F64 (Fin 0), F64 (Fin 7))]]) = 1
   \<and> moderately_expressed_count
       (expression_ratios [[(F64 (Fin 0), F64 (Fin 0))], [(F64 (Fin 3), F64 (Fin 0))], [(F64 (Fin 0), F64 (Fin 7))]]) = 0
   \<and> under_expressed_count
       (expression_ratios [[(F64 (Fin 0), F64 (Fin 0))], [(F64 (Fin 3), F64 (Fin 0))], [(F64 (Fin 0), F64 (Fin 7))]]) = 1
   \<and> length (expression_ratios [[(F64 (Fin 0), F64 (Fin 0))], [(F64 (Fin 3), F64 (Fin 0))], [(F64 (Fin 0), F64 (Fin 7))]]) = 3"
  using band_counts_partial
    [of "expression_ratios [[(F64 (Fin 0), F64 (Fin 0))], [(F64 (Fin 3), F64 (Fin 0))], [(F64 (Fin 0), F64 (Fin 7))]]"]
  by (simp add: expression_ratios_def expression_row_def expression_ratio_def true_divide_def pseudocount_def Let_def
      nanmean_def nansum_def count_notna_def highly_expressed_count_def
      moderately_expressed_count_def under_expressed_count_def highly_expressed_def
      moderately_expressed_def under_expressed_def fgt_def log2_8 log2_quarter)

text \<open>
  Claim C1 as written has the three counts add up to the number of genes. Take a table of
  two genes with one sample pair: the first with the genomic and the activity value 0,
  the second with the genomic value 0 and the activity value 3. Their mean ratios are 0
  and 2; neither gene is in a band, and the three counts add up to 0, not to 2.
\<close>

theorem band_partition_counterexample:
  "Mean_Log2_Ratio (expression_row [(F64 (Fin 0), F64 (Fin 0))]) = Fin 0
   \<and> Mean_Log2_Ratio (expression_row [(F64 (Fin 0), F64 (Fin 3))]) = Fin 2
   \<and> highly_expressed_count (expression_ratios [[(F64 (Fin 0), F64 (Fin 0))], [(F64 (Fin 0), F64 (Fin 3))]])
     + moderately_expressed_count (expression_ratios [[(F64 (Fin 0), F64 (Fin 0))], [(F64 (Fin 0), F64 (Fin 3))]])
     + under_expressed_count (expression_ratios [[(F64 (Fin 0), F64 (Fin 0))], [(F64 (Fin 0), F64 (Fin 3))]]) = 0
   \<and> length (expression_ratios [[(F64 (Fin 0), F64 (Fin 0))], [(F64 (Fin 0), F64 (Fin 3))]]) = 2"
  by (simp add: expression_ratios_def expression_row_def expression_ratio_def true_divide_def pseudocount_def Let_def
      nanmean_def nansum_def count_notna_def highly_expressed_count_def
      moderately_expressed_count_def under_expressed_count_def highly_expressed_def
      moderately_expressed_def under_expressed_def fgt_def log2_4)

section \<open>Alignment\<close>

lemma set_intersection: "set (intersection a b) = set a \<inter> set b"
  by (auto simp: intersection_def)

lemma loc_present:
  assumes "set keys \<subseteq> set (index df)"
  shows "loc df keys =
     Inr \<lparr>index = concat (map (select_label (index df) (index df)) keys),
          columns = map (\<lambda>(c, xs). (c, concat (map (select_label (index df) xs) keys)))
                        (columns df)\<rparr>"
proof -
  have "filter (\<lambda>k. k \<notin> set (index df)) keys = []"
    using assms by (auto simp: filter_empty_conv)
  then show ?thesis by (simp add: loc_def)
qed

text \<open>
  Claim C2, as the code has it. The alignment step never fails: for every pair of tables
  it returns the count of common genes and the two aligned tables. When the two tables
  share no gene it reports 0 common genes, reports the sizes of the two inputs as the
  counts of the genes specific to each, and produces two aligned tables that keep their
  columns and have no row.
\<close>

theorem main_load_never_fails:
  "\<exists>r. main_load mg_genes mtx_transcripts = Inr r
     \<and> n_common r = length (intersection (index mg_genes) (index mtx_transcripts))
     \<and> (intersection (index mg_genes) (index mtx_transcripts) = [] \<longrightarrow>
          n_common r = 0
          \<and> n_mg_specific r = int (length (index mg_genes))
          \<and> n_mtx_specific r = int (length (index mtx_transcripts))
          \<and> mg_aligned r = \<lparr>index = [], columns = map (\<lambda>(c, xs). (c, [])) (columns mg_genes)\<rparr>
          \<and> mtx_aligned r =
              \<lparr>index = [], columns = map (\<lambda>(c, xs). (c, [])) (columns mtx_transcripts)\<rparr>)"
proof -
  define common where "common = intersection (index mg_genes) (index mtx_transcripts)"
  have a: "set common \<subseteq> set (index mg_genes)"
    and b: "set common \<subseteq> set (index mtx_transcripts)"
    by (simp_all add: common_def set_intersection)
  show ?thesis
    unfolding main_load_def Let_def common_def [symmetric]
    by (simp add: loc_present [OF a] loc_present [OF b] case_prod_unfold)
qed

theorem main_load_never_fails_witness:
  "main_load \<lparr>index = [''g1'', ''g2''], columns = [(''S1'', [Fin 10, Fin 0])]\<rparr>
     \<lparr>index = [''g3'', ''g4'', ''g5''], columns = [(''S1'', [Fin 20, Fin 5, Fin 1])]\<rparr>
   = Inr \<lparr>n_common = 0, n_mg_specific = 2, n_mtx_specific = 3,
          mg_aligned = \<lparr>index = [], columns = [(''S1'', [])]\<rparr>,
          mtx_aligned = \<lparr>index = [], columns = [(''S1'', [])]\<rparr>\<rparr>"
  using main_load_never_fails [of
     "\<lparr>index = [''g1'', ''g2''], columns = [(''S1'', [Fin 10, Fin 0])]\<rparr>"
     "\<lparr>index = [''g3'', ''g4'', ''g5''], columns = [(''S1'', [Fin 20, Fin 5, Fin 1])]\<rparr>"]
  by (simp add: main_load_def loc_def intersection_def select_label_def Let_def)

text \<open>
  Claim C2 as written has the step fail on an empty intersection. Two tables with the
  single genes \<open>g1\<close> and \<open>g4\<close> share no gene, and the step returns normally, with two
  aligned tables without rows.
\<close>

theorem empty_alignment_counterexample:
  "intersection [''g1''] [''g4''] = []
   \<and> main_load \<lparr>index = [''g1''], columns = [(''S1'', [Fin 10])]\<rparr>
        \<lparr>index = [''g4''], columns = [(''S1'', [Fin 5])]\<rparr>
     = Inr \<lparr>n_common = 0, n_mg_specific = 1, n_mtx_specific = 1,
          mg_aligned = \<lparr>index = [], columns = [(''S1'', [])]\<rparr>,
          mtx_aligned = \<lparr>index = [], columns = [(''S1'', [])]\<rparr>\<rparr>"
  by (simp add: main_load_def loc_def intersection_def select_label_def Let_def)

end
